theory Spec2Isabelle
  imports Main "HOL-Library.AList"
begin

section \<open>Python values, types and exceptions used by \<open>cloudant/index.py\<close>\<close>

text \<open>
  The values that reach the module are Python objects. The model keeps the builtin
  classes the module inspects: \<open>None\<close>, \<open>bool\<close>, \<open>int\<close>, strings (\<open>str\<close> and
  \<open>unicode\<close>, both instances of \<open>basestring\<close> and both converted by \<open>json.dumps\<close>),
  \<open>list\<close> and \<open>tuple\<close>. \<open>PInt\<close> is a value of class \<open>int\<close>, which holds the integers
  from \<open>-sys.maxint - 1\<close> to \<open>sys.maxint\<close>; an integer outside that range is a
  \<open>long\<close>, \<open>PLong\<close>. Values of other classes come in three kinds:
  \<^item> \<open>PSub c v\<close>, an instance of a class \<open>c\<close> derived from the class of \<open>v\<close> that
    behaves as \<open>v\<close> does (a namedtuple, a subclass of \<open>str\<close>, \<open>list\<close> or \<open>int\<close>);
  \<^item> \<open>PSeq c items\<close>, an instance of a class \<open>c\<close> that is registered with
    \<open>collections.Sequence\<close> and derives from no builtin sequence (\<open>xrange\<close>,
    \<open>buffer\<close>), with the items it yields;
  \<^item> \<open>PObject c\<close>, an instance of a class \<open>c\<close> unrelated to all the classes the
    module names (a dict, a set, ...).
  Floating-point numbers are left out.
\<close>

datatype pyval =
    PNone
  | PBool bool
  | PInt int
  | PLong int
  | PStr string
  | PList "pyval list"
  | PTuple "pyval list"
  | PSub string pyval
  | PSeq string "pyval list"
  | PObject string

text \<open>
  The classes named in \<open>ARG_TYPES\<close> and \<open>TYPE_CONVERTERS\<close>, the class \<open>long\<close>, and
  \<open>T_class c\<close> for a class of the program's own or of the library, by name.
\<close>

datatype pytype =
    T_bool | T_basestring | T_str | T_unicode | T_Sequence | T_list | T_tuple
  | T_int | T_NoneType | T_object | T_long | T_class string

text \<open>
  \<open>type(v)\<close>: the exact class of a value. For an object of an unrelated class
  \<open>T_object\<close> stands for its class: no table of the module has an entry for it.
\<close>

fun type_of :: "pyval \<Rightarrow> pytype" where
  "type_of PNone = T_NoneType"
| "type_of (PBool b) = T_bool"
| "type_of (PInt n) = T_int"
| "type_of (PLong n) = T_long"
| "type_of (PStr s) = T_str"
| "type_of (PList xs) = T_list"
| "type_of (PTuple xs) = T_tuple"
| "type_of (PSub c v) = T_class c"
| "type_of (PSeq c items) = T_class c"
| "type_of (PObject c) = T_object"

text \<open>
  \<open>isinstance(v, t)\<close> for one class. \<open>bool\<close> is a subclass of \<open>int\<close>, \<open>long\<close> is
  not; \<open>str\<close>, \<open>unicode\<close>, \<open>list\<close> and \<open>tuple\<close> are registered with
  \<open>collections.Sequence\<close>. An instance of a derived class is an instance of all that
  the value it derives from is an instance of.
\<close>

fun isinstance1 :: "pyval \<Rightarrow> pytype \<Rightarrow> bool" where
  "isinstance1 v T_object = True"
| "isinstance1 (PBool b) t = (t = T_bool \<or> t = T_int)"
| "isinstance1 (PInt n) t = (t = T_int)"
| "isinstance1 (PLong n) t = (t = T_long)"
| "isinstance1 (PStr s) t = (t = T_str \<or> t = T_basestring \<or> t = T_Sequence)"
| "isinstance1 (PList xs) t = (t = T_list \<or> t = T_Sequence)"
| "isinstance1 (PTuple xs) t = (t = T_tuple \<or> t = T_Sequence)"
| "isinstance1 PNone t = (t = T_NoneType)"
| "isinstance1 (PSub c v) t = (t = T_class c \<or> isinstance1 v t)"
| "isinstance1 (PSeq c items) t = (t = T_class c \<or> t = T_Sequence)"
| "isinstance1 (PObject c) t = False"

text \<open>\<open>isinstance(v, ts)\<close> for a tuple of classes.\<close>

definition isinstance :: "pyval \<Rightarrow> pytype list \<Rightarrow> bool" where
  "isinstance v ts = list_ex (isinstance1 v) ts"

text \<open>
  A keyword-argument dictionary. The list order is the dictionary's iteration order;
  a dictionary has each key once.
\<close>

type_synonym kwargs = "(string \<times> pyval) list"

text \<open>The argument of \<open>Index.__getitem__\<close>: a plain value or a \<open>slice\<close> object.\<close>

datatype key = KVal pyval | KSlice pyval pyval pyval

text \<open>
  Every failure the module signals itself is a \<open>CloudantArgumentError\<close>; its message
  tells the cases apart. The other exceptions are the interpreter's own
  (\<open>TypeError\<close>, \<open>KeyError\<close>) or come out of the data callable (\<open>BackendError\<close>).
\<close>

datatype error =
    CloudantArgumentError msg
  | TypeError string
  | KeyError string
  | BackendError string
and msg =
    InvalidArgument string
  | NotInstance string "pytype list"
  | InvalidStale pyval
  | ErrorConverting string error
  | FailedToInterpret key
  | CannotUseSkip
  | CannotUseLimit

section \<open>The option translator \<open>python_to_couch\<close>\<close>

definition ARG_TYPES :: "(string \<times> pytype list) list" where
  "ARG_TYPES =
    [(''descending'', [T_bool]),
     (''endkey'', [T_basestring, T_Sequence]),
     (''endkey_docid'', [T_basestring]),
     (''group'', [T_bool]),
     (''group_level'', [T_basestring]),
     (''include_docs'', [T_bool]),
     (''inclusive_end'', [T_bool]),
     (''key'', [T_int, T_basestring, T_Sequence]),
     (''limit'', [T_int, T_NoneType]),
     (''reduce'', [T_bool]),
     (''skip'', [T_int, T_NoneType]),
     (''stale'', [T_basestring]),
     (''startkey'', [T_basestring, T_Sequence]),
     (''startkey_docid'', [T_basestring])]"

text \<open>
  \<open>json.dumps\<close> belongs to the standard library, so the translator takes it as a
  parameter: the JSON text of a value, or the exception it raises.
\<close>

type_synonym dumps = "pyval \<Rightarrow> error + string"

text \<open>\<open>list(x)\<close>: the elements of a sequence as a list; a string gives its characters.\<close>

fun py_list :: "pyval \<Rightarrow> error + pyval" where
  "py_list (PList xs) = Inr (PList xs)"
| "py_list (PTuple xs) = Inr (PList xs)"
| "py_list (PStr s) = Inr (PList (map (\<lambda>c. PStr [c]) s))"
| "py_list (PSub c v) = py_list v"
| "py_list (PSeq c items) = Inr (PList items)"
| "py_list v = Inl (TypeError ''object is not iterable'')"

text \<open>The truth value of an object, as the conditional expression of the \<open>bool\<close> converter reads it.\<close>

fun truthy :: "pyval \<Rightarrow> bool" where
  "truthy PNone = False"
| "truthy (PBool b) = b"
| "truthy (PInt n) = (n \<noteq> 0)"
| "truthy (PLong n) = (n \<noteq> 0)"
| "truthy (PStr s) = (s \<noteq> [])"
| "truthy (PList xs) = (xs \<noteq> [])"
| "truthy (PTuple xs) = (xs \<noteq> [])"
| "truthy (PSub c v) = truthy v"
| "truthy (PSeq c items) = (items \<noteq> [])"
| "truthy (PObject c) = True"

definition conv_dumps :: "dumps \<Rightarrow> pyval \<Rightarrow> error + pyval" where
  "conv_dumps d x = (case d x of Inl e \<Rightarrow> Inl e | Inr s \<Rightarrow> Inr (PStr s))"

definition conv_dumps_list :: "dumps \<Rightarrow> pyval \<Rightarrow> error + pyval" where
  "conv_dumps_list d x = (case py_list x of Inl e \<Rightarrow> Inl e | Inr l \<Rightarrow> conv_dumps d l)"

definition TYPE_CONVERTERS :: "dumps \<Rightarrow> (pytype \<times> (pyval \<Rightarrow> error + pyval)) list" where
  "TYPE_CONVERTERS d =
    [(T_basestring, conv_dumps d),
     (T_str, conv_dumps d),
     (T_unicode, conv_dumps d),
     (T_Sequence, conv_dumps_list d),
     (T_list, conv_dumps d),
     (T_tuple, conv_dumps_list d),
     (T_int, \<lambda>x. Inr x),
     (T_bool, \<lambda>x. Inr (PStr (if truthy x then ''true'' else ''false''))),
     (T_NoneType, \<lambda>x. Inr x)]"

text \<open>
  The body of the \<open>try\<close> block for one value: \<open>None\<close> is stored as it is, anything
  else goes through the converter found for its exact class; calling a missing
  converter (\<open>None\<close>) raises \<open>TypeError\<close>.
\<close>

definition convert_arg :: "(pyval \<Rightarrow> error + pyval) option \<Rightarrow> pyval \<Rightarrow> error + pyval" where
  "convert_arg arg_converter v =
     (if v = PNone then Inr PNone
      else (case arg_converter of
              None \<Rightarrow> Inl (TypeError ''NoneType object is not callable'')
            | Some c \<Rightarrow> c v))"

text \<open>
  The body of the loop of \<open>python_to_couch\<close> for one entry \<open>k, v\<close>: the checks in
  the source's order, then the conversion, whose exceptions are caught and raised
  again as a \<open>CloudantArgumentError\<close>. The value is what goes into \<open>result[k]\<close>.
\<close>

definition translate_item :: "dumps \<Rightarrow> string \<Rightarrow> pyval \<Rightarrow> error + pyval" where
  "translate_item d k v =
     (case map_of ARG_TYPES k of
        None \<Rightarrow> Inl (CloudantArgumentError (InvalidArgument k))
      | Some ts \<Rightarrow>
          if \<not> isinstance v ts then Inl (CloudantArgumentError (NotInstance k ts))
          else if k = ''stale'' \<and> v \<noteq> PStr ''ok'' \<and> v \<noteq> PStr ''update_after''
          then Inl (CloudantArgumentError (InvalidStale v))
          else (case convert_arg (map_of (TYPE_CONVERTERS d) (type_of v)) v of
                  Inl ex \<Rightarrow> Inl (CloudantArgumentError (ErrorConverting k ex))
                | Inr w \<Rightarrow> Inr w))"

text \<open>
  The loop over \<open>options.iteritems()\<close>, with \<open>result\<close> as the accumulator; the first
  failing entry raises and ends the call.
\<close>

fun translate_items :: "dumps \<Rightarrow> kwargs \<Rightarrow> kwargs \<Rightarrow> error + kwargs" where
  "translate_items d [] result = Inr result"
| "translate_items d ((k, v) # rest) result =
     (case translate_item d k v of
        Inl e \<Rightarrow> Inl e
      | Inr w \<Rightarrow> translate_items d rest (AList.update k w result))"

definition python_to_couch :: "dumps \<Rightarrow> kwargs \<Rightarrow> error + kwargs" where
  "python_to_couch d options = translate_items d options []"

section \<open>The \<open>Index\<close> class\<close>

text \<open>
  The data callable answers with a dictionary; \<open>rows\<close> is the entry the class reads,
  and it may be missing. Rows are opaque to the class.
\<close>

record 'r response =
  rows :: "'r list option"
  total_rows :: "int option"
  offset :: "int option"

text \<open>
  The data callable (\<open>method_ref\<close>) is external: given the keyword arguments and the
  state of the backend it answers or raises, and leaves a new backend state.
\<close>

type_synonym ('r, 'w) fetch = "kwargs \<Rightarrow> 'w \<Rightarrow> (error + 'r response) \<times> 'w"

record ('r, 'w) index =
  options :: kwargs
  ref :: "('r, 'w) fetch"
  page_size :: pyval
  valid_args :: "string list"

text \<open>
  What lies outside the object: the backend state and the list of keyword dictionaries
  the data callable has been invoked with, oldest first.
\<close>

record 'w st =
  world :: 'w
  calls :: "kwargs list"

definition keys :: "kwargs \<Rightarrow> string list" where
  "keys d = map fst d"

text \<open>\<open>d.pop(k, default)\<close>: the value removed and the dictionary left.\<close>

definition dict_pop :: "string \<Rightarrow> pyval \<Rightarrow> kwargs \<Rightarrow> pyval \<times> kwargs" where
  "dict_pop k dflt d =
     ((case map_of d k of None \<Rightarrow> dflt | Some v \<Rightarrow> v), filter (\<lambda>p. fst p \<noteq> k) d)"

text \<open>\<open>Index.__init__(self, method_ref, **options)\<close>.\<close>

definition Index_init :: "('r, 'w) fetch \<Rightarrow> kwargs \<Rightarrow> ('r, 'w) index" where
  "Index_init method_ref opts =
     (let (ps, rest) = dict_pop ''page_size'' (PInt 100) opts
      in \<lparr>options = rest, ref = method_ref, page_size = ps, valid_args = map fst ARG_TYPES\<rparr>)"

text \<open>
  The call \<open>self._ref(k1=v1, ..., **self.options)\<close>. A keyword given both explicitly and
  through \<open>**self.options\<close> is a \<open>TypeError\<close> raised by the interpreter before the
  callable runs; otherwise the callable receives both sets of keywords.
\<close>

definition call_ref ::
  "('r, 'w) index \<Rightarrow> kwargs \<Rightarrow> 'w st \<Rightarrow> (error + 'r response) \<times> 'w st" where
  "call_ref self explicit s =
     (case find (\<lambda>k. k \<in> set (keys (options self))) (keys explicit) of
        Some k \<Rightarrow> (Inl (TypeError k), s)
      | None \<Rightarrow>
          (let kw = explicit @ options self;
               (r, w') = ref self kw (world s)
           in (r, \<lparr>world = w', calls = calls s @ [kw]\<rparr>)))"

text \<open>\<open>data['rows']\<close>.\<close>

definition rows_of :: "'r response \<Rightarrow> error + 'r list" where
  "rows_of data = (case rows data of None \<Rightarrow> Inl (KeyError ''rows'') | Some r \<Rightarrow> Inr r)"

text \<open>The pair of statements \<open>data = self._ref(...); return data['rows']\<close>.\<close>

definition fetch_rows ::
  "('r, 'w) index \<Rightarrow> kwargs \<Rightarrow> 'w st \<Rightarrow> (error + 'r list) \<times> 'w st" where
  "fetch_rows self explicit s =
     (case call_ref self explicit s of
        (Inl e, s') \<Rightarrow> (Inl e, s')
      | (Inr data, s') \<Rightarrow> (rows_of data, s'))"

definition type_or_none :: "pytype list \<Rightarrow> pyval \<Rightarrow> bool" where
  "type_or_none typerefs v = (isinstance v typerefs \<or> v = PNone)"

text \<open>The integer a number stands for in arithmetic (\<open>True\<close> is 1, \<open>False\<close> is 0).\<close>

fun int_value :: "pyval \<Rightarrow> int option" where
  "int_value (PInt n) = Some n"
| "int_value (PLong n) = Some n"
| "int_value (PBool b) = Some (if b then 1 else 0)"
| "int_value (PSub c v) = int_value v"
| "int_value v = None"

fun is_long :: "pyval \<Rightarrow> bool" where
  "is_long (PLong n) = True"
| "is_long (PSub c v) = is_long v"
| "is_long v = False"

text \<open>
  \<open>sys.maxint\<close>, a constant of the interpreter: its value on the 64-bit builds
  (\<open>2 ** 63 - 1\<close>).
\<close>

definition sys_maxint :: int where
  "sys_maxint = 9223372036854775807"

text \<open>
  The object for the integer result of an operation on numbers: a \<open>long\<close> when an
  operand is one or when the result does not fit an \<open>int\<close>, an \<open>int\<close> otherwise.
  Nothing wraps around.
\<close>

definition number :: "pyval \<Rightarrow> pyval \<Rightarrow> int \<Rightarrow> pyval" where
  "number a b n =
     (if is_long a \<or> is_long b then PLong n
      else if - sys_maxint - 1 \<le> n \<and> n \<le> sys_maxint then PInt n
      else PLong n)"

definition py_sub :: "pyval \<Rightarrow> pyval \<Rightarrow> error + pyval" where
  "py_sub a b =
     (case (int_value a, int_value b) of
        (Some x, Some y) \<Rightarrow> Inr (number a b (x - y))
      | _ \<Rightarrow> Inl (TypeError ''unsupported operand type(s) for -''))"

definition py_add :: "pyval \<Rightarrow> pyval \<Rightarrow> error + pyval" where
  "py_add a b =
     (case (int_value a, int_value b) of
        (Some x, Some y) \<Rightarrow> Inr (number a b (x + y))
      | _ \<Rightarrow> Inl (TypeError ''unsupported operand type(s) for +''))"

text \<open>
  \<open>Index.__getitem__(self, key)\<close>. In each slice branch the source tests the four
  combinations of absent bounds one after the other; they exclude each other, so
  exactly one call is made, written here as a chain. The slice's step is never read.
\<close>

fun getitem ::
  "('r, 'w) index \<Rightarrow> key \<Rightarrow> 'w st \<Rightarrow> (error + 'r list) \<times> 'w st" where
  "getitem self (KVal k) s =
     (if isinstance k [T_basestring] then fetch_rows self [(''key'', k)] s
      else if isinstance k [T_list] then fetch_rows self [(''key'', k)] s
      else (Inl (CloudantArgumentError (FailedToInterpret (KVal k))), s))"
| "getitem self (KSlice start stop step) s =
     (if type_or_none [T_basestring, T_list] start \<and> type_or_none [T_basestring, T_list] stop
      then
        (if start \<noteq> PNone \<and> stop \<noteq> PNone
           then fetch_rows self [(''startkey'', start), (''endkey'', stop)] s
         else if start \<noteq> PNone \<and> stop = PNone
           then fetch_rows self [(''startkey'', start)] s
         else if start = PNone \<and> stop \<noteq> PNone
           then fetch_rows self [(''endkey'', stop)] s
         else fetch_rows self [] s)
      else if type_or_none [T_int] start \<and> type_or_none [T_int] stop
      then
        (if start \<noteq> PNone \<and> stop \<noteq> PNone
           then (case py_sub stop start of
                   Inl e \<Rightarrow> (Inl e, s)
                 | Inr limit \<Rightarrow> fetch_rows self [(''skip'', start), (''limit'', limit)] s)
         else if start \<noteq> PNone \<and> stop = PNone
           then fetch_rows self [(''skip'', start)] s
         else fetch_rows self [(''limit'', stop)] s)
      else (Inl (CloudantArgumentError (FailedToInterpret (KSlice start stop step))), s))"

subsection \<open>The generator returned by \<open>Index.__iter__\<close>\<close>

text \<open>
  \<open>__iter__\<close> is a generator function: calling it runs nothing and returns a generator
  that has not started. Each \<open>next\<close> runs the body up to the following \<open>yield\<close>, to
  the end of the body (\<open>StopIteration\<close>) or to an exception. A suspended generator
  holds its local variables: \<open>skip\<close>, already advanced past the page in hand, and the
  rows of that page still to be yielded.
\<close>

datatype 'r gen = GStart | GSuspended pyval "'r list" | GFinished

datatype 'r outcome = Yield 'r | StopIteration | Raise error

definition Index_iter :: "('r, 'w) index \<Rightarrow> 'r gen" where
  "Index_iter self = GStart"

text \<open>
  One round of the \<open>while True\<close> loop up to its first \<open>yield\<close> or the \<open>break\<close>:
  the call, \<open>response.get('rows', [])\<close>, the advance of \<open>skip\<close>, the length test.
\<close>

definition fetch_page ::
  "('r, 'w) index \<Rightarrow> pyval \<Rightarrow> 'w st \<Rightarrow> ('r outcome \<times> 'r gen) \<times> 'w st" where
  "fetch_page self skip s =
     (case call_ref self [(''limit'', page_size self), (''skip'', skip)] s of
        (Inl e, s') \<Rightarrow> ((Raise e, GFinished), s')
      | (Inr response, s') \<Rightarrow>
          (let result = (case rows response of None \<Rightarrow> [] | Some r \<Rightarrow> r)
           in case py_add skip (page_size self) of
                Inl e \<Rightarrow> ((Raise e, GFinished), s')
              | Inr skip' \<Rightarrow>
                  (case result of
                     [] \<Rightarrow> ((StopIteration, GFinished), s')
                   | x # xs \<Rightarrow> ((Yield x, GSuspended skip' xs), s'))))"

fun gen_next ::
  "('r, 'w) index \<Rightarrow> 'r gen \<Rightarrow> 'w st \<Rightarrow> ('r outcome \<times> 'r gen) \<times> 'w st" where
  "gen_next self GStart s =
     (if ''skip'' \<in> set (keys (options self))
        then ((Raise (CloudantArgumentError CannotUseSkip), GFinished), s)
      else if ''limit'' \<in> set (keys (options self))
        then ((Raise (CloudantArgumentError CannotUseLimit), GFinished), s)
      else fetch_page self (PInt 0) s)"
| "gen_next self (GSuspended skip (x # xs)) s = ((Yield x, GSuspended skip xs), s)"
| "gen_next self (GSuspended skip []) s = fetch_page self skip s"
| "gen_next self GFinished s = ((StopIteration, GFinished), s)"

text \<open>
  A consumer that pulls until the generator stops (\<open>list(index)\<close>, a full \<open>for\<close>
  loop), collecting the rows. The loop need not end, so it runs on fuel: \<open>None\<close> is
  "still running when the fuel ran out".
\<close>

fun consume ::
  "nat \<Rightarrow> ('r, 'w) index \<Rightarrow> 'r gen \<Rightarrow> 'w st \<Rightarrow> 'r list \<Rightarrow> (error + 'r list) option \<times> 'w st" where
  "consume 0 self g s acc = (None, s)"
| "consume (Suc n) self g s acc =
     (case gen_next self g s of
        ((Yield x, g'), s') \<Rightarrow> consume n self g' s' (acc @ [x])
      | ((StopIteration, g'), s') \<Rightarrow> (Some (Inr acc), s')
      | ((Raise e, g'), s') \<Rightarrow> (Some (Inl e), s'))"

subsection \<open>Consumers of generators\<close>

text \<open>\<open>n\<close> successive calls of \<open>next\<close> on one generator, with what each gave.\<close>

fun pull ::
  "nat \<Rightarrow> ('r, 'w) index \<Rightarrow> 'r gen \<Rightarrow> 'w st \<Rightarrow> 'r outcome list \<times> 'r gen \<times> 'w st" where
  "pull 0 self g s = ([], g, s)"
| "pull (Suc n) self g s =
     (case gen_next self g s of
        ((out, g'), s') \<Rightarrow>
          (case pull n self g' s' of (outs, g'', s'') \<Rightarrow> (out # outs, g'', s'')))"

text \<open>
  Two generators of the same object driven by one caller. The schedule says whose
  \<open>next\<close> is called at each step (\<open>True\<close>: the first generator); the result keeps
  what each generator gave, in order.
\<close>

fun interleave ::
  "bool list \<Rightarrow> ('r, 'w) index \<Rightarrow> 'r gen \<Rightarrow> 'r gen \<Rightarrow> 'w st \<Rightarrow>
     ('r outcome list \<times> 'r outcome list) \<times> 'w st" where
  "interleave [] self ga gb s = (([], []), s)"
| "interleave (True # sched) self ga gb s =
     (case gen_next self ga s of
        ((out, ga'), s') \<Rightarrow>
          (case interleave sched self ga' gb s' of
             ((oa, ob), s'') \<Rightarrow> ((out # oa, ob), s'')))"
| "interleave (False # sched) self ga gb s =
     (case gen_next self gb s of
        ((out, gb'), s') \<Rightarrow>
          (case interleave sched self ga gb' s' of
             ((oa, ob), s'') \<Rightarrow> ((oa, out # ob), s'')))"

section \<open>Stand-ins for the external collaborators\<close>

text \<open>A data callable that answers every request with the same rows.\<close>

definition const_backend :: "'r list \<Rightarrow> ('r, unit) fetch" where
  "const_backend rs kw w = (Inr \<lparr>rows = Some rs, total_rows = None, offset = None\<rparr>, w)"

text \<open>
  A data callable that answers from a script of pages, one page per request whatever
  the request says, and with an empty page once the script is used up. The backend
  state is the rest of the script.
\<close>

definition paged_backend :: "('r, 'r list list) fetch" where
  "paged_backend kw pages =
     (case pages of
        [] \<Rightarrow> (Inr \<lparr>rows = Some [], total_rows = None, offset = None\<rparr>, [])
      | p # ps \<Rightarrow> (Inr \<lparr>rows = Some p, total_rows = None, offset = None\<rparr>, ps))"

text \<open>
  A data callable over a fixed table of rows that honours \<open>skip\<close> and \<open>limit\<close> as the
  document store does: it answers with the rows from position \<open>skip\<close> on, at most
  \<open>limit\<close> of them.
\<close>

definition table_backend :: "'r list \<Rightarrow> ('r, unit) fetch" where
  "table_backend tbl kw w =
     (let sk = (case map_of kw ''skip'' of
                  None \<Rightarrow> 0
                | Some v \<Rightarrow> (case int_value v of None \<Rightarrow> 0 | Some n \<Rightarrow> nat n));
          rs = drop sk tbl;
          page = (case map_of kw ''limit'' of
                    None \<Rightarrow> rs
                  | Some v \<Rightarrow> (case int_value v of None \<Rightarrow> rs | Some n \<Rightarrow> take (nat n) rs))
      in (Inr \<lparr>rows = Some page, total_rows = Some (int (length tbl)), offset = Some (int sk)\<rparr>, w))"

text \<open>
  A model of \<open>json.dumps\<close> for the values above: \<open>null\<close>, \<open>true\<close>/\<open>false\<close>, decimal
  integers, quoted strings with the quote, the backslash and the common control
  characters escaped, and arrays with \<open>", "\<close> between the items. An instance of a
  derived class is encoded as the value it derives from; an object of an unrelated
  class, and an \<open>xrange\<close> or a \<open>buffer\<close>, is not serialisable and raises
  \<open>TypeError\<close>.
\<close>

fun digits :: "nat \<Rightarrow> string" where
  "digits n =
     (if n < 10 then [''0123456789'' ! n]
      else digits (n div 10) @ [''0123456789'' ! (n mod 10)])"

definition int_text :: "int \<Rightarrow> string" where
  "int_text i = (if i < 0 then CHR ''-'' # digits (nat (- i)) else digits (nat i))"

definition escape_char :: "char \<Rightarrow> string" where
  "escape_char c =
     (if c = CHR 0x22 then [CHR 0x5C, CHR 0x22]
      else if c = CHR 0x5C then [CHR 0x5C, CHR 0x5C]
      else if c = CHR 0x0A then [CHR 0x5C, CHR ''n'']
      else if c = CHR 0x0D then [CHR 0x5C, CHR ''r'']
      else if c = CHR 0x09 then [CHR 0x5C, CHR ''t'']
      else [c])"

definition quote :: "string \<Rightarrow> string" where
  "quote s = CHR 0x22 # concat (map escape_char s) @ [CHR 0x22]"

fun json_text :: "pyval \<Rightarrow> string option"
  and json_items :: "pyval list \<Rightarrow> string option" where
  "json_text PNone = Some ''null''"
| "json_text (PBool b) = Some (if b then ''true'' else ''false'')"
| "json_text (PInt n) = Some (int_text n)"
| "json_text (PLong n) = Some (int_text n)"
| "json_text (PStr s) = Some (quote s)"
| "json_text (PList xs) =
     (case json_items xs of None \<Rightarrow> None | Some t \<Rightarrow> Some (''['' @ t @ '']''))"
| "json_text (PTuple xs) =
     (case json_items xs of None \<Rightarrow> None | Some t \<Rightarrow> Some (''['' @ t @ '']''))"
| "json_text (PSub c v) = json_text v"
| "json_text (PSeq c items) = None"
| "json_text (PObject c) = None"
| "json_items [] = Some []"
| "json_items [x] = json_text x"
| "json_items (x # y # ys) =
     (case json_text x of
        None \<Rightarrow> None
      | Some a \<Rightarrow> (case json_items (y # ys) of None \<Rightarrow> None | Some b \<Rightarrow> Some (a @ '', '' @ b)))"

definition json_dumps :: dumps where
  "json_dumps v =
     (case json_text v of
        None \<Rightarrow> Inl (TypeError ''is not JSON serializable'')
      | Some t \<Rightarrow> Inr t)"

section \<open>Properties\<close>

subsection \<open>Calls of the data callable\<close>

lemma call_ref_calls:
  "calls (snd (call_ref self ex s)) = calls s \<or>
   calls (snd (call_ref self ex s)) = calls s @ [ex @ options self]"
  by (simp add: call_ref_def Let_def split: option.splits prod.splits)

lemma call_ref_free:
  "find (\<lambda>k. k \<in> set (keys (options self))) (keys ex) = None \<Longrightarrow>
   call_ref self ex s =
     (fst (ref self (ex @ options self) (world s)),
      \<lparr>world = snd (ref self (ex @ options self) (world s)),
       calls = calls s @ [ex @ options self]\<rparr>)"
  by (simp add: call_ref_def Let_def split: prod.splits)

lemma call_ref_clash:
  "find (\<lambda>k. k \<in> set (keys (options self))) (keys ex) = Some k \<Longrightarrow>
   call_ref self ex s = (Inl (TypeError k), s)"
  by (simp add: call_ref_def)

lemma fetch_rows_calls:
  "calls (snd (fetch_rows self ex s)) = calls s \<or>
   calls (snd (fetch_rows self ex s)) = calls s @ [ex @ options self]"
  using call_ref_calls [of self ex s]
  by (auto simp: fetch_rows_def split: prod.splits sum.splits)

lemma fetch_rows_free:
  "find (\<lambda>k. k \<in> set (keys (options self))) (keys ex) = None \<Longrightarrow>
   fetch_rows self ex s =
     ((case fst (ref self (ex @ options self) (world s)) of
         Inl e \<Rightarrow> Inl e | Inr data \<Rightarrow> rows_of data),
      \<lparr>world = snd (ref self (ex @ options self) (world s)),
       calls = calls s @ [ex @ options self]\<rparr>)"
  by (simp add: fetch_rows_def call_ref_free split: sum.splits)

lemma getitem_cases:
  assumes "\<And>ex. set (keys ex) \<subseteq> {''key'', ''startkey'', ''endkey'', ''skip'', ''limit''} \<Longrightarrow>
             P (fetch_rows self ex s)"
    and "\<And>e. P (Inl e, s)"
  shows "P (getitem self k s)"
proof (cases k)
  case (KVal v)
  have "P (fetch_rows self [(''key'', v)] s)"
    by (rule assms(1)) (simp add: keys_def)
  then show ?thesis by (simp add: KVal assms(2))
next
  case (KSlice a b c)
  have 1: "P (fetch_rows self [(''startkey'', a), (''endkey'', b)] s)"
    by (rule assms(1)) (simp add: keys_def)
  have 2: "P (fetch_rows self [(''startkey'', a)] s)"
    by (rule assms(1)) (simp add: keys_def)
  have 3: "P (fetch_rows self [(''endkey'', b)] s)"
    by (rule assms(1)) (simp add: keys_def)
  have 4: "P (fetch_rows self [] s)"
    by (rule assms(1)) (simp add: keys_def)
  have 5: "\<And>l. P (fetch_rows self [(''skip'', a), (''limit'', l)] s)"
    by (rule assms(1)) (simp add: keys_def)
  have 6: "P (fetch_rows self [(''skip'', a)] s)"
    by (rule assms(1)) (simp add: keys_def)
  have 7: "P (fetch_rows self [(''limit'', b)] s)"
    by (rule assms(1)) (simp add: keys_def)
  show ?thesis
    by (simp add: KSlice 1 2 3 4 5 6 7 assms(2) type_or_none_def split: sum.splits)
qed

lemma getitem_calls:
  "calls (snd (getitem self k s)) = calls s \<or>
   (\<exists>ex. set (keys ex) \<subseteq> {''key'', ''startkey'', ''endkey'', ''skip'', ''limit''} \<and>
      calls (snd (getitem self k s)) = calls s @ [ex @ options self])"
proof (rule getitem_cases)
  fix ex :: kwargs
  assume "set (keys ex) \<subseteq> {''key'', ''startkey'', ''endkey'', ''skip'', ''limit''}"
  then show "calls (snd (fetch_rows self ex s)) = calls s \<or>
   (\<exists>ex'. set (keys ex') \<subseteq> {''key'', ''startkey'', ''endkey'', ''skip'', ''limit''} \<and>
      calls (snd (fetch_rows self ex s)) = calls s @ [ex' @ options self])"
    using fetch_rows_calls [of self ex s] by blast
next
  fix e :: error
  show "calls (snd (Inl e, s)) = calls s \<or>
   (\<exists>ex. set (keys ex) \<subseteq> {''key'', ''startkey'', ''endkey'', ''skip'', ''limit''} \<and>
      calls (snd (Inl e, s)) = calls s @ [ex @ options self])"
    by simp
qed

lemma fetch_page_calls:
  "calls (snd (fetch_page self sk s)) = calls s \<or>
   calls (snd (fetch_page self sk s)) =
     calls s @ [[(''limit'', page_size self), (''skip'', sk)] @ options self]"
  using call_ref_calls [of self "[(''limit'', page_size self), (''skip'', sk)]" s]
  by (auto simp: fetch_page_def Let_def split: prod.splits sum.splits list.splits)

lemma gen_next_calls:
  "calls (snd (gen_next self g s)) = calls s \<or>
   (\<exists>sk. calls (snd (gen_next self g s)) =
     calls s @ [[(''limit'', page_size self), (''skip'', sk)] @ options self])"
proof (cases g)
  case GStart
  then show ?thesis using fetch_page_calls [of self "PInt 0" s] by auto
next
  case (GSuspended sk xs)
  then show ?thesis using fetch_page_calls [of self sk s] by (cases xs) auto
next
  case GFinished
  then show ?thesis by simp
qed

lemma translate_ints:
  "python_to_couch d [(''skip'', PInt a), (''limit'', PInt b)] =
     Inr [(''skip'', PInt a), (''limit'', PInt b)]"
  "python_to_couch d [(''limit'', PInt b)] = Inr [(''limit'', PInt b)]"
  by (simp_all add: python_to_couch_def translate_item_def ARG_TYPES_def isinstance_def
        TYPE_CONVERTERS_def convert_arg_def)

subsection \<open>Reserved options and iteration\<close>

text \<open>
  Claim C4. When the fixed options of an Index hold the key \<open>skip\<close> or the key
  \<open>limit\<close>, the first \<open>next\<close> on the generator of \<open>__iter__\<close> raises the
  \<open>CloudantArgumentError\<close> "Cannot use skip/limit for iteration" and leaves the
  outside state as it was: the data callable has not been invoked and the backend has
  not moved. A consumer that drains the generator gets that error.
\<close>

theorem iter_conflicting_option:
  assumes "''skip'' \<in> set (keys (options self)) \<or> ''limit'' \<in> set (keys (options self))"
  shows "gen_next self (Index_iter self) s =
           ((Raise (CloudantArgumentError
               (if ''skip'' \<in> set (keys (options self)) then CannotUseSkip else CannotUseLimit)),
             GFinished), s)
         \<and> consume (Suc n) self (Index_iter self) s [] =
           (Some (Inl (CloudantArgumentError
               (if ''skip'' \<in> set (keys (options self)) then CannotUseSkip else CannotUseLimit))), s)"
  using assms by (auto simp: Index_iter_def)

theorem iter_conflicting_option_witness:
  "''skip'' \<in> set (keys (options (Index_init (const_backend [1::nat, 2]) [(''skip'', PInt 5)])))
   \<and> consume 5 (Index_init (const_backend [1::nat, 2]) [(''skip'', PInt 5)])
        (Index_iter (Index_init (const_backend [1::nat, 2]) [(''skip'', PInt 5)]))
        \<lparr>world = (), calls = []\<rparr> [] =
      (Some (Inl (CloudantArgumentError CannotUseSkip)), \<lparr>world = (), calls = []\<rparr>)"
  using iter_conflicting_option
    [of "Index_init (const_backend [1::nat, 2]) [(''skip'', PInt 5)]"
        "\<lparr>world = (), calls = []\<rparr>" 4]
  by (simp add: Index_init_def dict_pop_def keys_def)

subsection \<open>Key and range lookup\<close>

text \<open>
  Claim C2, as stated, at an integer key and at a tuple key. \<open>ARG_TYPES\<close> accepts
  both for the option \<open>key\<close>, but \<open>__getitem__\<close> passes on only strings and
  lists: any other plain key falls through to the final \<open>raise\<close>, and the data
  callable is not invoked.
\<close>

theorem key_lookup_int_tuple_counterexample:
  "isinstance (PInt 5) [T_int, T_basestring, T_Sequence]
   \<and> map_of ARG_TYPES ''key'' = Some [T_int, T_basestring, T_Sequence]
   \<and> getitem (Index_init (const_backend [1::nat, 2]) []) (KVal (PInt 5)) \<lparr>world = (), calls = []\<rparr> =
       (Inl (CloudantArgumentError (FailedToInterpret (KVal (PInt 5)))), \<lparr>world = (), calls = []\<rparr>)
   \<and> getitem (Index_init (const_backend [1::nat, 2]) []) (KVal (PTuple [PStr ''a'', PStr ''b'']))
         \<lparr>world = (), calls = []\<rparr> =
       (Inl (CloudantArgumentError (FailedToInterpret (KVal (PTuple [PStr ''a'', PStr ''b''])))),
        \<lparr>world = (), calls = []\<rparr>)"
  by (simp add: isinstance_def ARG_TYPES_def)

text \<open>
  Claim C2, amended. For a key that is a string or a list, on an Index whose fixed
  options have no entry \<open>key\<close>, the lookup invokes the data callable exactly once,
  with \<open>key\<close> followed by the fixed options, and returns the \<open>rows\<close> of the answer
  as they are. An exception of the callable is passed on, and an answer without
  \<open>rows\<close> is a \<open>KeyError\<close>.
\<close>

theorem key_lookup_str_or_list:
  assumes "type_of k \<in> {T_str, T_list}" and "''key'' \<notin> set (keys (options self))"
  shows "getitem self (KVal k) s =
           ((case fst (ref self ((''key'', k) # options self) (world s)) of
               Inl e \<Rightarrow> Inl e
             | Inr data \<Rightarrow> (case rows data of None \<Rightarrow> Inl (KeyError ''rows'') | Some r \<Rightarrow> Inr r)),
            \<lparr>world = snd (ref self ((''key'', k) # options self) (world s)),
             calls = calls s @ [(''key'', k) # options self]\<rparr>)"
proof -
  have a: "find (\<lambda>x. x \<in> set (keys (options self))) (keys [(''key'', k)]) = None"
    using assms(2) by (simp add: keys_def)
  have "getitem self (KVal k) s = fetch_rows self [(''key'', k)] s"
    using assms(1) by (cases k) (simp_all add: isinstance_def)
  then show ?thesis
    unfolding fetch_rows_free [OF a]
    by (simp add: rows_of_def split: sum.splits)
qed

theorem key_lookup_str_or_list_witness:
  "type_of (PList [PStr ''2013'', PStr ''10'']) \<in> {T_str, T_list}
   \<and> ''key'' \<notin> set (keys (options (Index_init (const_backend [7::nat, 8]) [(''reduce'', PBool False)])))
   \<and> getitem (Index_init (const_backend [7::nat, 8]) [(''reduce'', PBool False)])
        (KVal (PList [PStr ''2013'', PStr ''10''])) \<lparr>world = (), calls = []\<rparr> =
      (Inr [7, 8],
       \<lparr>world = (), calls = [[(''key'', PList [PStr ''2013'', PStr ''10'']), (''reduce'', PBool False)]]\<rparr>)"
  using key_lookup_str_or_list
    [of "PList [PStr ''2013'', PStr ''10'']"
        "Index_init (const_backend [7::nat, 8]) [(''reduce'', PBool False)]"
        "\<lparr>world = (), calls = []\<rparr>"]
  by (simp add: Index_init_def dict_pop_def keys_def const_backend_def)

text \<open>
  Claim C5, as stated, at three inputs. With \<open>skip = 5\<close> among the fixed options a
  stop-only slice makes a call that does carry a \<open>skip\<close> keyword; with \<open>limit = 5\<close>
  among them the keyword \<open>limit\<close> is given twice, the interpreter raises \<open>TypeError\<close>
  and no call is made; and the integer \<open>2 ** 64\<close> is a \<open>long\<close>, not an \<open>int\<close>, so as a
  stop bound it is refused with the \<open>CloudantArgumentError\<close> of unclassifiable
  bounds, again without a call.
\<close>

theorem range_positional_window_counterexample:
  "getitem (Index_init (const_backend [1::nat, 2]) [(''skip'', PInt 5)])
      (KSlice PNone (PInt 200) PNone) \<lparr>world = (), calls = []\<rparr> =
     (Inr [1, 2], \<lparr>world = (), calls = [[(''limit'', PInt 200), (''skip'', PInt 5)]]\<rparr>)
   \<and> getitem (Index_init (const_backend [1::nat, 2]) [(''limit'', PInt 5)])
      (KSlice PNone (PInt 200) PNone) \<lparr>world = (), calls = []\<rparr> =
     (Inl (TypeError ''limit''), \<lparr>world = (), calls = []\<rparr>)
   \<and> getitem (Index_init (const_backend [1::nat, 2]) [])
      (KSlice PNone (PLong 18446744073709551616) PNone) \<lparr>world = (), calls = []\<rparr> =
     (Inl (CloudantArgumentError
            (FailedToInterpret (KSlice PNone (PLong 18446744073709551616) PNone))),
      \<lparr>world = (), calls = []\<rparr>)"
  by (simp add: Index_init_def dict_pop_def keys_def type_or_none_def isinstance_def
        fetch_rows_def call_ref_def const_backend_def rows_of_def Let_def)

text \<open>
  Claim C5, amended. Take an Index whose fixed options hold neither \<open>skip\<close> nor
  \<open>limit\<close>, and bounds of class \<open>int\<close> (integers within the range of \<open>int\<close>). A slice
  with a stop and no start makes exactly one call, whose keywords hold \<open>limit = stop\<close>
  and no \<open>skip\<close> at all, and the translator leaves that entry as it is. A slice with
  both bounds makes exactly one call with \<open>skip = start\<close> and a \<open>limit\<close> whose value
  is \<open>stop - start\<close>, whatever its sign: that number as an \<open>int\<close>, or as a \<open>long\<close>
  when the difference leaves the range of \<open>int\<close>.
\<close>

theorem range_positional_window:
  assumes "''skip'' \<notin> set (keys (options self))" and "''limit'' \<notin> set (keys (options self))"
    and "- sys_maxint - 1 \<le> start \<and> start \<le> sys_maxint"
    and "- sys_maxint - 1 \<le> stop \<and> stop \<le> sys_maxint"
  shows "calls (snd (getitem self (KSlice PNone (PInt stop) step) s)) =
           calls s @ [(''limit'', PInt stop) # options self]
       \<and> map_of ((''limit'', PInt stop) # options self) ''limit'' = Some (PInt stop)
       \<and> map_of ((''limit'', PInt stop) # options self) ''skip'' = None
       \<and> python_to_couch d [(''limit'', PInt stop)] = Inr [(''limit'', PInt stop)]
       \<and> calls (snd (getitem self (KSlice (PInt start) (PInt stop) step) s)) =
           calls s @ [(''skip'', PInt start) #
                      (''limit'', number (PInt stop) (PInt start) (stop - start)) # options self]
       \<and> int_value (number (PInt stop) (PInt start) (stop - start)) = Some (stop - start)
       \<and> number (PInt stop) (PInt start) (stop - start) =
           (if - sys_maxint - 1 \<le> stop - start \<and> stop - start \<le> sys_maxint
            then PInt (stop - start) else PLong (stop - start))"
proof -
  have a: "find (\<lambda>k. k \<in> set (keys (options self))) (keys [(''limit'', PInt stop)]) = None"
    using assms(1,2) by (simp add: keys_def)
  have b: "\<And>l. find (\<lambda>k. k \<in> set (keys (options self)))
             (keys [(''skip'', PInt start), (''limit'', l)]) = None"
    using assms(1,2) by (simp add: keys_def)
  have 1: "calls (snd (getitem self (KSlice PNone (PInt stop) step) s)) =
           calls s @ [(''limit'', PInt stop) # options self]"
    by (simp add: type_or_none_def isinstance_def fetch_rows_free [OF a])
  have 2: "calls (snd (getitem self (KSlice (PInt start) (PInt stop) step) s)) =
           calls s @ [(''skip'', PInt start) #
                      (''limit'', number (PInt stop) (PInt start) (stop - start)) # options self]"
    by (simp add: type_or_none_def isinstance_def py_sub_def fetch_rows_free [OF b])
  have 3: "map_of ((''limit'', PInt stop) # options self) ''skip'' = None"
    using assms(1) by (simp add: keys_def map_of_eq_None_iff)
  have 4: "int_value (number (PInt stop) (PInt start) (stop - start)) = Some (stop - start)"
    by (simp add: number_def)
  have 5: "number (PInt stop) (PInt start) (stop - start) =
           (if - sys_maxint - 1 \<le> stop - start \<and> stop - start \<le> sys_maxint
            then PInt (stop - start) else PLong (stop - start))"
    by (simp add: number_def)
  show ?thesis using 1 2 3 4 5 translate_ints(2) [of d stop] by simp
qed

theorem range_positional_window_witness:
  "''skip'' \<notin> set (keys (options (Index_init (const_backend [1::nat, 2]) [(''include_docs'', PBool True)])))
   \<and> ''limit'' \<notin> set (keys (options (Index_init (const_backend [1::nat, 2]) [(''include_docs'', PBool True)])))
   \<and> - sys_maxint - 1 \<le> 200 \<and> 200 \<le> sys_maxint
   \<and> - sys_maxint - 1 \<le> 100 \<and> 100 \<le> sys_maxint
   \<and> calls (snd (getitem (Index_init (const_backend [1::nat, 2]) [(''include_docs'', PBool True)])
              (KSlice PNone (PInt 200) PNone) \<lparr>world = (), calls = []\<rparr>)) =
        [[(''limit'', PInt 200), (''include_docs'', PBool True)]]
   \<and> calls (snd (getitem (Index_init (const_backend [1::nat, 2]) [(''include_docs'', PBool True)])
              (KSlice (PInt 200) (PInt 100) PNone) \<lparr>world = (), calls = []\<rparr>)) =
        [[(''skip'', PInt 200), (''limit'', PInt (- 100)), (''include_docs'', PBool True)]]"
  using range_positional_window
    [of "Index_init (const_backend [1::nat, 2]) [(''include_docs'', PBool True)]"
        200 200 PNone "\<lparr>world = (), calls = []\<rparr>" json_dumps]
    range_positional_window
    [of "Index_init (const_backend [1::nat, 2]) [(''include_docs'', PBool True)]"
        200 100 PNone "\<lparr>world = (), calls = []\<rparr>" json_dumps]
  by (simp add: Index_init_def dict_pop_def keys_def sys_maxint_def)

text \<open>
  Claim C6. The bounds of a slice are of mixed kinds when one is a string or a list
  and the other an integer (\<open>bool\<close> counts as \<open>int\<close>, being its subclass), and
  unclassifiable when one of them is neither \<open>None\<close>, a string, a list nor an
  \<open>int\<close> (in the model: a tuple, a \<open>long\<close>, an \<open>xrange\<close>, an object of an unrelated
  class, and whatever else passes neither \<open>isinstance\<close> test). In all these cases
  \<open>__getitem__\<close> raises the \<open>CloudantArgumentError\<close> whose message carries the slice
  it was given, and the outside state is untouched: the data callable is not invoked.
\<close>

theorem range_mixed_kinds_rejected:
  assumes "(type_of a \<in> {T_str, T_list} \<and> type_of b \<in> {T_int, T_bool})
         \<or> (type_of a \<in> {T_int, T_bool} \<and> type_of b \<in> {T_str, T_list})
         \<or> type_of a \<in> {T_tuple, T_object}
         \<or> type_of b \<in> {T_tuple, T_object}
         \<or> (a \<noteq> PNone \<and> \<not> isinstance a [T_basestring, T_list, T_int])
         \<or> (b \<noteq> PNone \<and> \<not> isinstance b [T_basestring, T_list, T_int])"
  shows "getitem self (KSlice a b step) s =
           (Inl (CloudantArgumentError (FailedToInterpret (KSlice a b step))), s)"
proof -
  have "\<not> (type_or_none [T_basestring, T_list] a \<and> type_or_none [T_basestring, T_list] b)"
    using assms
    by (cases a; cases b) (auto simp: type_or_none_def isinstance_def)
  moreover have "\<not> (type_or_none [T_int] a \<and> type_or_none [T_int] b)"
    using assms
    by (cases a; cases b) (auto simp: type_or_none_def isinstance_def)
  ultimately show ?thesis by auto
qed

theorem range_mixed_kinds_rejected_witness:
  "type_of (PStr ''2013'') \<in> {T_str, T_list} \<and> type_of (PInt 200) \<in> {T_int, T_bool} \<and>
   getitem (Index_init (const_backend [1::nat, 2]) []) (KSlice (PStr ''2013'') (PInt 200) PNone)
      \<lparr>world = (), calls = []\<rparr> =
   (Inl (CloudantArgumentError (FailedToInterpret (KSlice (PStr ''2013'') (PInt 200) PNone))),
    \<lparr>world = (), calls = []\<rparr>)"
  using range_mixed_kinds_rejected
    [of "PStr ''2013''" "PInt 200" "Index_init (const_backend [1::nat, 2]) []" PNone
        "\<lparr>world = (), calls = []\<rparr>"]
  by simp

subsection \<open>What the data callable receives\<close>

text \<open>
  Claim C1, as stated, on three access paths. The Index hands its fixed options to the
  data callable as they were given: an option the translator rejects (\<open>bogus\<close>)
  reaches the callable on key lookup, on range lookup and on iteration, and a boolean
  option arrives as the Python boolean where the translator would give the token
  \<open>true\<close> and a quoted key.
\<close>

theorem index_translates_options_counterexample:
  "python_to_couch json_dumps [(''bogus'', PInt 1)] =
      Inl (CloudantArgumentError (InvalidArgument ''bogus''))
   \<and> getitem (Index_init (const_backend [1::nat]) [(''bogus'', PInt 1)]) (KVal (PStr ''a''))
        \<lparr>world = (), calls = []\<rparr> =
      (Inr [1], \<lparr>world = (), calls = [[(''key'', PStr ''a''), (''bogus'', PInt 1)]]\<rparr>)
   \<and> calls (snd (getitem (Index_init (const_backend [1::nat]) [(''bogus'', PInt 1)])
        (KSlice (PInt 0) (PInt 10) PNone) \<lparr>world = (), calls = []\<rparr>)) =
      [[(''skip'', PInt 0), (''limit'', PInt 10), (''bogus'', PInt 1)]]
   \<and> calls (snd (gen_next (Index_init (const_backend [1::nat]) [(''bogus'', PInt 1)])
        (Index_iter (Index_init (const_backend [1::nat]) [(''bogus'', PInt 1)]))
        \<lparr>world = (), calls = []\<rparr>)) =
      [[(''limit'', PInt 100), (''skip'', PInt 0), (''bogus'', PInt 1)]]
   \<and> python_to_couch json_dumps [(''key'', PStr ''a''), (''include_docs'', PBool True)] =
      Inr [(''key'', PStr [CHR 0x22, CHR ''a'', CHR 0x22]), (''include_docs'', PStr ''true'')]
   \<and> calls (snd (getitem (Index_init (const_backend [1::nat]) [(''include_docs'', PBool True)])
        (KVal (PStr ''a'')) \<lparr>world = (), calls = []\<rparr>)) =
      [[(''key'', PStr ''a''), (''include_docs'', PBool True)]]"
  by (simp add: python_to_couch_def translate_item_def ARG_TYPES_def isinstance_def
        TYPE_CONVERTERS_def convert_arg_def conv_dumps_def json_dumps_def quote_def escape_char_def
        Index_init_def dict_pop_def Index_iter_def keys_def fetch_rows_def fetch_page_def
        call_ref_def const_backend_def rows_of_def type_or_none_def py_sub_def py_add_def
        number_def sys_maxint_def Let_def)

text \<open>
  Claim C1, amended. Every key lookup, range lookup and step of the generator invokes
  the data callable at most once, and what the callable receives is the path's own
  keywords (\<open>key\<close>, \<open>startkey\<close>, \<open>endkey\<close>, \<open>skip\<close>, \<open>limit\<close>) followed by the fixed
  options exactly as the Index holds them. The class never calls \<open>python_to_couch\<close>;
  validation and translation are left to the callable.
\<close>

theorem index_forwards_raw_options:
  "(calls (snd (getitem self k s)) = calls s \<or>
    (\<exists>ex. set (keys ex) \<subseteq> {''key'', ''startkey'', ''endkey'', ''skip'', ''limit''} \<and>
       calls (snd (getitem self k s)) = calls s @ [ex @ options self]))
   \<and> (calls (snd (gen_next self g s)) = calls s \<or>
    (\<exists>sk. calls (snd (gen_next self g s)) =
       calls s @ [[(''limit'', page_size self), (''skip'', sk)] @ options self]))"
  using getitem_calls [of self k s] gen_next_calls [of self g s] by blast

text \<open>
  Claim C10. The constructor pops \<open>page_size\<close> out of the options: the fixed options
  of the new Index have no such key, the page size is the value given, or 100 when none
  was given, and no call made by a lookup or by a step of the generator carries a
  \<open>page_size\<close> keyword. The page size reaches the callable only as the \<open>limit\<close> of
  the calls made by the generator.
\<close>

theorem page_size_not_forwarded:
  assumes "self = Index_init f opts"
  shows "''page_size'' \<notin> set (keys (options self))
       \<and> page_size self = (case map_of opts ''page_size'' of None \<Rightarrow> PInt 100 | Some v \<Rightarrow> v)
       \<and> (\<forall>kw \<in> set (calls (snd (getitem self k s))).
             kw \<in> set (calls s) \<or> ''page_size'' \<notin> set (keys kw))
       \<and> (\<forall>kw \<in> set (calls (snd (gen_next self g s))).
             kw \<in> set (calls s) \<or>
             (''page_size'' \<notin> set (keys kw) \<and> map_of kw ''limit'' = Some (page_size self)))"
proof -
  have 1: "''page_size'' \<notin> set (keys (options self))"
    by (auto simp: assms Index_init_def dict_pop_def keys_def)
  have 2: "page_size self = (case map_of opts ''page_size'' of None \<Rightarrow> PInt 100 | Some v \<Rightarrow> v)"
    by (simp add: assms Index_init_def dict_pop_def)
  have 3: "\<forall>kw \<in> set (calls (snd (getitem self k s))).
             kw \<in> set (calls s) \<or> ''page_size'' \<notin> set (keys kw)"
  proof
    fix kw assume kw: "kw \<in> set (calls (snd (getitem self k s)))"
    from getitem_calls [of self k s]
    show "kw \<in> set (calls s) \<or> ''page_size'' \<notin> set (keys kw)"
    proof
      assume "calls (snd (getitem self k s)) = calls s"
      with kw show ?thesis by simp
    next
      assume "\<exists>ex. set (keys ex) \<subseteq> {''key'', ''startkey'', ''endkey'', ''skip'', ''limit''} \<and>
                calls (snd (getitem self k s)) = calls s @ [ex @ options self]"
      then obtain ex where ex: "set (keys ex) \<subseteq> {''key'', ''startkey'', ''endkey'', ''skip'', ''limit''}"
        and c: "calls (snd (getitem self k s)) = calls s @ [ex @ options self]" by blast
      have "''page_size'' \<notin> set (keys ex)" using ex by auto
      then have "''page_size'' \<notin> set (keys (ex @ options self))"
        using 1 by (simp add: keys_def)
      with kw c show ?thesis by auto
    qed
  qed
  have 4: "\<forall>kw \<in> set (calls (snd (gen_next self g s))).
             kw \<in> set (calls s) \<or>
             (''page_size'' \<notin> set (keys kw) \<and> map_of kw ''limit'' = Some (page_size self))"
    using gen_next_calls [of self g s] 1 by (auto simp: keys_def)
  show ?thesis using 1 2 3 4 by blast
qed

theorem page_size_not_forwarded_witness:
  "options (Index_init (table_backend [1::nat, 2, 3]) [(''page_size'', PInt 2), (''reduce'', PBool False)]) =
      [(''reduce'', PBool False)]
   \<and> page_size (Index_init (table_backend [1::nat, 2, 3]) [(''page_size'', PInt 2), (''reduce'', PBool False)]) = PInt 2
   \<and> page_size (Index_init (table_backend [1::nat, 2, 3]) [(''reduce'', PBool False)]) = PInt 100
   \<and> calls (snd (gen_next
        (Index_init (table_backend [1::nat, 2, 3]) [(''page_size'', PInt 2), (''reduce'', PBool False)])
        GStart \<lparr>world = (), calls = []\<rparr>)) =
      [[(''limit'', PInt 2), (''skip'', PInt 0), (''reduce'', PBool False)]]"
  using page_size_not_forwarded
    [OF refl, of "table_backend [1::nat, 2, 3]" "[(''page_size'', PInt 2), (''reduce'', PBool False)]"
       "KVal (PStr ''a'')" "\<lparr>world = (), calls = []\<rparr>" GStart]
    page_size_not_forwarded
    [OF refl, of "table_backend [1::nat, 2, 3]" "[(''reduce'', PBool False)]"
       "KVal (PStr ''a'')" "\<lparr>world = (), calls = []\<rparr>" GStart]
  by (simp add: Index_init_def dict_pop_def keys_def fetch_page_def call_ref_def table_backend_def
        py_add_def number_def sys_maxint_def Let_def)

subsection \<open>The translator\<close>

lemma translate_items_ok:
  assumes "\<forall>(k, v) \<in> set opts. \<exists>w. translate_item d k v = Inr w"
  shows "\<exists>res. translate_items d opts acc = Inr res
           \<and> set (keys res) = set (keys acc) \<union> set (keys opts)
           \<and> (distinct (keys acc) \<longrightarrow> distinct (keys res))"
  using assms
proof (induction opts arbitrary: acc)
  case Nil
  then show ?case by (simp add: keys_def)
next
  case (Cons p opts)
  obtain k v where p: "p = (k, v)" by (cases p)
  from Cons.prems p obtain w where w: "translate_item d k v = Inr w" by auto
  from Cons.prems have "\<forall>(k, v) \<in> set opts. \<exists>w. translate_item d k v = Inr w" by simp
  from Cons.IH [OF this, of "AList.update k w acc"]
  obtain res where res: "translate_items d opts (AList.update k w acc) = Inr res"
    and ks: "set (keys res) = set (keys (AList.update k w acc)) \<union> set (keys opts)"
    and ds: "distinct (keys (AList.update k w acc)) \<longrightarrow> distinct (keys res)"
    by blast
  have "set (keys (AList.update k w acc)) = insert k (set (keys acc))"
    using AList.dom_update [of k w acc] by (simp add: keys_def)
  moreover have "distinct (keys acc) \<Longrightarrow> distinct (keys (AList.update k w acc))"
    by (simp add: keys_def AList.distinct_update)
  ultimately show ?case using res ks ds by (auto simp: p w keys_def)
qed



lemma translate_item_ok:
  assumes "map_of ARG_TYPES k = Some ts" and "isinstance v ts"
    and "type_of v \<in> {T_str, T_list, T_tuple, T_int, T_bool, T_NoneType}"
    and "k = ''stale'' \<longrightarrow> v = PStr ''ok'' \<or> v = PStr ''update_after''"
    and "case v of PStr s \<Rightarrow> \<exists>t. d v = Inr t
                 | PList xs \<Rightarrow> \<exists>t. d v = Inr t
                 | PTuple xs \<Rightarrow> \<exists>t. d (PList xs) = Inr t
                 | _ \<Rightarrow> True"
  shows "\<exists>w. translate_item d k v = Inr w"
  using assms
  by (cases v)
     (auto simp: translate_item_def convert_arg_def TYPE_CONVERTERS_def
        conv_dumps_def conv_dumps_list_def)



text \<open>
  Claim C8, as stated, at three dictionaries whose names are in \<open>ARG_TYPES\<close> and
  whose values are instances of the declared classes: \<open>stale = "nope"\<close> is a string
  and is rejected for its value; a list key holding an object that \<open>json.dumps\<close>
  cannot encode is rejected by the conversion; and the key \<open>xrange(3)\<close> is a
  \<open>Sequence\<close>, but \<open>TYPE_CONVERTERS\<close> is looked up by the exact class and has no
  entry for \<open>xrange\<close>, so the call of the missing converter fails.
\<close>

theorem translation_type_correct_counterexample:
  "map_of ARG_TYPES ''stale'' = Some [T_basestring]
   \<and> isinstance (PStr ''nope'') [T_basestring]
   \<and> python_to_couch json_dumps [(''stale'', PStr ''nope'')] =
       Inl (CloudantArgumentError (InvalidStale (PStr ''nope'')))
   \<and> map_of ARG_TYPES ''key'' = Some [T_int, T_basestring, T_Sequence]
   \<and> isinstance (PList [PObject ''set'']) [T_int, T_basestring, T_Sequence]
   \<and> python_to_couch json_dumps [(''key'', PList [PObject ''set''])] =
       Inl (CloudantArgumentError
             (ErrorConverting ''key'' (TypeError ''is not JSON serializable'')))
   \<and> isinstance (PSeq ''xrange'' [PInt 0, PInt 1, PInt 2]) [T_int, T_basestring, T_Sequence]
   \<and> python_to_couch json_dumps [(''key'', PSeq ''xrange'' [PInt 0, PInt 1, PInt 2])] =
       Inl (CloudantArgumentError
             (ErrorConverting ''key'' (TypeError ''NoneType object is not callable'')))"
  by (simp add: python_to_couch_def translate_item_def ARG_TYPES_def isinstance_def
        TYPE_CONVERTERS_def convert_arg_def conv_dumps_def json_dumps_def)

text \<open>
  Claim C8, amended. For an option dictionary in which every name is in \<open>ARG_TYPES\<close>,
  every value is an instance of the classes declared for its name and its own class
  is one of \<open>str\<close>, \<open>unicode\<close>, \<open>list\<close>, \<open>tuple\<close>, \<open>int\<close>, \<open>bool\<close> and \<open>NoneType\<close>,
  \<open>stale\<close> (when present) is \<open>ok\<close> or \<open>update_after\<close>, and \<open>json.dumps\<close> encodes
  every string, list and tuple value, the translation succeeds and its result has
  exactly the keys of the input, each once: as many entries as the input. Values of
  other classes that pass the \<open>isinstance\<close> check (\<open>xrange\<close>, instances of derived
  classes) are left out of the statement.
\<close>

theorem translation_type_correct:
  assumes "distinct (keys opts)"
    and "\<forall>(k, v) \<in> set opts. \<exists>ts. map_of ARG_TYPES k = Some ts \<and> isinstance v ts"
    and "\<forall>(k, v) \<in> set opts. type_of v \<in> {T_str, T_list, T_tuple, T_int, T_bool, T_NoneType}"
    and "\<forall>(k, v) \<in> set opts. k = ''stale'' \<longrightarrow> v = PStr ''ok'' \<or> v = PStr ''update_after''"
    and "\<forall>(k, v) \<in> set opts.
           (case v of PStr s \<Rightarrow> \<exists>t. d v = Inr t
                    | PList xs \<Rightarrow> \<exists>t. d v = Inr t
                    | PTuple xs \<Rightarrow> \<exists>t. d (PList xs) = Inr t
                    | _ \<Rightarrow> True)"
  shows "\<exists>res. python_to_couch d opts = Inr res
           \<and> set (keys res) = set (keys opts)
           \<and> distinct (keys res)
           \<and> length res = length opts"
proof -
  have "\<forall>(k, v) \<in> set opts. \<exists>w. translate_item d k v = Inr w"
  proof (clarify)
    fix k v assume kv: "(k, v) \<in> set opts"
    from assms(2) kv obtain ts where ts: "map_of ARG_TYPES k = Some ts" "isinstance v ts"
      by blast
    from assms(3) kv have ty: "type_of v \<in> {T_str, T_list, T_tuple, T_int, T_bool, T_NoneType}"
      by blast
    from assms(4) kv have st: "k = ''stale'' \<longrightarrow> v = PStr ''ok'' \<or> v = PStr ''update_after''"
      by blast
    from assms(5) kv have en: "case v of PStr s \<Rightarrow> \<exists>t. d v = Inr t
                 | PList xs \<Rightarrow> \<exists>t. d v = Inr t
                 | PTuple xs \<Rightarrow> \<exists>t. d (PList xs) = Inr t
                 | _ \<Rightarrow> True"
      by blast
    show "\<exists>w. translate_item d k v = Inr w"
      by (rule translate_item_ok [OF ts ty st en])
  qed
  from translate_items_ok [OF this, of "[]"]
  obtain res where r: "translate_items d opts [] = Inr res"
    and ks: "set (keys res) = set (keys opts)" and ds: "distinct (keys res)"
    by (auto simp: keys_def)
  have "length (keys res) = card (set (keys res))" using ds by (simp add: distinct_card)
  also have "\<dots> = length (keys opts)" using ks assms(1) by (simp add: distinct_card)
  finally have "length res = length opts" by (simp add: keys_def)
  with r ks ds show ?thesis by (simp add: python_to_couch_def)
qed

theorem translation_type_correct_witness:
  "distinct (keys [(''include_docs'', PBool True), (''stale'', PStr ''ok''), (''limit'', PNone),
                   (''startkey'', PTuple [PStr ''2013'', PInt 10])])
   \<and> python_to_couch json_dumps
        [(''include_docs'', PBool True), (''stale'', PStr ''ok''), (''limit'', PNone),
         (''startkey'', PTuple [PStr ''2013'', PInt 10])] =
      Inr [(''include_docs'', PStr ''true''),
           (''stale'', PStr [CHR 0x22, CHR ''o'', CHR ''k'', CHR 0x22]),
           (''limit'', PNone),
           (''startkey'', PStr ([CHR ''['', CHR 0x22] @ ''2013'' @ [CHR 0x22] @ '', 10]''))]
   \<and> (\<exists>res. python_to_couch json_dumps
        [(''include_docs'', PBool True), (''stale'', PStr ''ok''), (''limit'', PNone),
         (''startkey'', PTuple [PStr ''2013'', PInt 10])] = Inr res \<and> length res = 4)"
proof -
  have e: "python_to_couch json_dumps
        [(''include_docs'', PBool True), (''stale'', PStr ''ok''), (''limit'', PNone),
         (''startkey'', PTuple [PStr ''2013'', PInt 10])] =
      Inr [(''include_docs'', PStr ''true''),
           (''stale'', PStr [CHR 0x22, CHR ''o'', CHR ''k'', CHR 0x22]),
           (''limit'', PNone),
           (''startkey'', PStr ([CHR ''['', CHR 0x22] @ ''2013'' @ [CHR 0x22] @ '', 10]''))]"
    by (simp add: python_to_couch_def translate_item_def ARG_TYPES_def isinstance_def
          TYPE_CONVERTERS_def convert_arg_def conv_dumps_def conv_dumps_list_def json_dumps_def
          quote_def escape_char_def int_text_def)
  have d: "distinct (keys [(''include_docs'', PBool True), (''stale'', PStr ''ok''), (''limit'', PNone),
                   (''startkey'', PTuple [PStr ''2013'', PInt 10])])"
    by (simp add: keys_def)
  have "\<exists>res. python_to_couch json_dumps
        [(''include_docs'', PBool True), (''stale'', PStr ''ok''), (''limit'', PNone),
         (''startkey'', PTuple [PStr ''2013'', PInt 10])] = Inr res
           \<and> set (keys res) = set (keys [(''include_docs'', PBool True), (''stale'', PStr ''ok''), (''limit'', PNone),
         (''startkey'', PTuple [PStr ''2013'', PInt 10])])
           \<and> distinct (keys res)
           \<and> length res = length [(''include_docs'', PBool True), (''stale'', PStr ''ok''), (''limit'', PNone),
         (''startkey'', PTuple [PStr ''2013'', PInt 10])]"
    by (rule translation_type_correct [OF d])
       (simp_all add: ARG_TYPES_def isinstance_def json_dumps_def)
  then show ?thesis using e d by simp
qed

subsection \<open>Paged iteration\<close>

lemma consume_buffer:
  "consume (length xs + n) self (GSuspended sk xs) s acc =
   consume n self (GSuspended sk []) s (acc @ xs)"
  by (induction xs arbitrary: acc) simp_all

lemma fetch_page_answer:
  assumes "''skip'' \<notin> set (keys (options self))" and "''limit'' \<notin> set (keys (options self))"
    and "ref self ([(''limit'', page_size self), (''skip'', sk)] @ options self) w = (Inr r, w')"
    and "py_add sk (page_size self) = Inr sk'"
  shows "fetch_page self sk \<lparr>world = w, calls = cs\<rparr> =
           ((case (case rows r of None \<Rightarrow> [] | Some p \<Rightarrow> p) of
               [] \<Rightarrow> (StopIteration, GFinished)
             | x # xs \<Rightarrow> (Yield x, GSuspended sk' xs)),
            \<lparr>world = w',
             calls = cs @ [[(''limit'', page_size self), (''skip'', sk)] @ options self]\<rparr>)"
proof -
  have a: "find (\<lambda>x. x \<in> set (keys (options self)))
             (keys [(''limit'', page_size self), (''skip'', sk)]) = None"
    using assms(1,2) by (simp add: keys_def)
  show ?thesis
    unfolding fetch_page_def call_ref_free [OF a]
    using assms(3) by (simp add: assms(4) split: list.splits)
qed

lemma consume_page:
  assumes "''skip'' \<notin> set (keys (options self))" and "''limit'' \<notin> set (keys (options self))"
    and "ref self ([(''limit'', page_size self), (''skip'', sk)] @ options self) w = (Inr r, w')"
    and "py_add sk (page_size self) = Inr sk'"
    and "rows r = Some p" and "p \<noteq> []"
  shows "consume (length p + n) self (GSuspended sk []) \<lparr>world = w, calls = cs\<rparr> acc =
         consume n self (GSuspended sk' [])
           \<lparr>world = w', calls = cs @ [[(''limit'', page_size self), (''skip'', sk)] @ options self]\<rparr>
           (acc @ p)"
proof -
  from assms(6) obtain x xs where p: "p = x # xs" by (cases p) auto
  have "consume (length p + n) self (GSuspended sk []) \<lparr>world = w, calls = cs\<rparr> acc =
        consume (length xs + n) self (GSuspended sk' xs)
           \<lparr>world = w', calls = cs @ [[(''limit'', page_size self), (''skip'', sk)] @ options self]\<rparr>
           (acc @ [x])"
    by (simp add: p fetch_page_answer [OF assms(1,2,3,4)] assms(5))
  then show ?thesis by (simp add: consume_buffer p)
qed

lemma consume_empty_page:
  assumes "''skip'' \<notin> set (keys (options self))" and "''limit'' \<notin> set (keys (options self))"
    and "ref self ([(''limit'', page_size self), (''skip'', sk)] @ options self) w = (Inr r, w')"
    and "py_add sk (page_size self) = Inr sk'"
    and "rows r = Some [] \<or> rows r = None"
  shows "consume (Suc n) self (GSuspended sk []) \<lparr>world = w, calls = cs\<rparr> acc =
         (Some (Inr acc),
          \<lparr>world = w', calls = cs @ [[(''limit'', page_size self), (''skip'', sk)] @ options self]\<rparr>)"
  using assms(5) by (auto simp: fetch_page_answer [OF assms(1,2,3,4)])

lemma consume_start:
  assumes "''skip'' \<notin> set (keys (options self))" and "''limit'' \<notin> set (keys (options self))"
  shows "consume n self (Index_iter self) s acc = consume n self (GSuspended (PInt 0) []) s acc"
  using assms by (cases n) (simp_all add: Index_iter_def)

text \<open>
  Claim C3. Take an Index with page size 100 whose fixed options hold neither \<open>skip\<close>
  nor \<open>limit\<close>, and any data callable that, asked with \<open>limit = 100\<close> and \<open>skip\<close> 0,
  100, 200 and 300 in turn, answers with pages of 100, 100, 37 and 0 rows. A consumer
  that drains the generator, given fuel for 238 calls of \<open>next\<close> or more, ends with
  the rows of the three pages in the order they came, 237 in all; the data callable
  has been invoked exactly four times, the n-th time with \<open>skip = (n - 1) * 100\<close>.
  The page of 37 rows did not end the scan: the fourth call was made, and its empty
  page did.
\<close>

theorem iterate_four_pages:
  assumes "''skip'' \<notin> set (keys (options self))" and "''limit'' \<notin> set (keys (options self))"
    and "page_size self = PInt 100"
    and "ref self ([(''limit'', PInt 100), (''skip'', PInt 0)] @ options self) w0 = (Inr r1, w1)"
    and "ref self ([(''limit'', PInt 100), (''skip'', PInt 100)] @ options self) w1 = (Inr r2, w2)"
    and "ref self ([(''limit'', PInt 100), (''skip'', PInt 200)] @ options self) w2 = (Inr r3, w3)"
    and "ref self ([(''limit'', PInt 100), (''skip'', PInt 300)] @ options self) w3 = (Inr r4, w4)"
    and "rows r1 = Some p1" and "length p1 = 100"
    and "rows r2 = Some p2" and "length p2 = 100"
    and "rows r3 = Some p3" and "length p3 = 37"
    and "rows r4 = Some []"
    and "237 < n"
  shows "consume n self (Index_iter self) \<lparr>world = w0, calls = cs\<rparr> [] =
           (Some (Inr (p1 @ p2 @ p3)),
            \<lparr>world = w4,
             calls = cs @ [[(''limit'', PInt 100), (''skip'', PInt 0)] @ options self,
                           [(''limit'', PInt 100), (''skip'', PInt 100)] @ options self,
                           [(''limit'', PInt 100), (''skip'', PInt 200)] @ options self,
                           [(''limit'', PInt 100), (''skip'', PInt 300)] @ options self]\<rparr>)
         \<and> length (p1 @ p2 @ p3) = 237"
proof -
  note base = assms(1,2)
  note ps = assms(3)
  define m where "m = n - 238"
  have n: "n = length p1 + (length p2 + (length p3 + Suc m))"
    using assms(9,11,13,15) by (simp add: m_def)
  have ne: "p1 \<noteq> []" "p2 \<noteq> []" "p3 \<noteq> []" using assms(9,11,13) by auto
  have a4: "ref self ([(''limit'', page_size self), (''skip'', PInt 0)] @ options self) w0 = (Inr r1, w1)"
    and a5: "ref self ([(''limit'', page_size self), (''skip'', PInt 100)] @ options self) w1 = (Inr r2, w2)"
    and a6: "ref self ([(''limit'', page_size self), (''skip'', PInt 200)] @ options self) w2 = (Inr r3, w3)"
    and a7: "ref self ([(''limit'', page_size self), (''skip'', PInt 300)] @ options self) w3 = (Inr r4, w4)"
    using assms(4,5,6,7) by (simp_all add: ps)
  have b1: "py_add (PInt 0) (page_size self) = Inr (PInt 100)"
    and b2: "py_add (PInt 100) (page_size self) = Inr (PInt 200)"
    and b3: "py_add (PInt 200) (page_size self) = Inr (PInt 300)"
    and b4: "py_add (PInt 300) (page_size self) = Inr (PInt 400)"
    by (simp_all add: ps py_add_def number_def sys_maxint_def)
  have "consume n self (Index_iter self) \<lparr>world = w0, calls = cs\<rparr> [] =
        consume n self (GSuspended (PInt 0) []) \<lparr>world = w0, calls = cs\<rparr> []"
    by (rule consume_start [OF assms(1,2)])
  also have "\<dots> = consume (length p2 + (length p3 + Suc m)) self (GSuspended (PInt 100) [])
        \<lparr>world = w1, calls = cs @ [[(''limit'', page_size self), (''skip'', PInt 0)] @ options self]\<rparr>
        ([] @ p1)"
    unfolding n by (rule consume_page [OF base a4 b1 assms(8) ne(1)])
  also have "\<dots> = consume (length p3 + Suc m) self (GSuspended (PInt 200) [])
        \<lparr>world = w2, calls = (cs @ [[(''limit'', page_size self), (''skip'', PInt 0)] @ options self])
            @ [[(''limit'', page_size self), (''skip'', PInt 100)] @ options self]\<rparr> (([] @ p1) @ p2)"
    by (rule consume_page [OF base a5 b2 assms(10) ne(2)])
  also have "\<dots> = consume (Suc m) self (GSuspended (PInt 300) [])
        \<lparr>world = w3, calls = ((cs @ [[(''limit'', page_size self), (''skip'', PInt 0)] @ options self])
            @ [[(''limit'', page_size self), (''skip'', PInt 100)] @ options self])
            @ [[(''limit'', page_size self), (''skip'', PInt 200)] @ options self]\<rparr>
            ((([] @ p1) @ p2) @ p3)"
    by (rule consume_page [OF base a6 b3 assms(12) ne(3)])
  also have "\<dots> = (Some (Inr ((([] @ p1) @ p2) @ p3)),
        \<lparr>world = w4, calls = (((cs @ [[(''limit'', page_size self), (''skip'', PInt 0)] @ options self])
            @ [[(''limit'', page_size self), (''skip'', PInt 100)] @ options self])
            @ [[(''limit'', page_size self), (''skip'', PInt 200)] @ options self])
            @ [[(''limit'', page_size self), (''skip'', PInt 300)] @ options self]\<rparr>)"
    by (rule consume_empty_page [OF base a7 b4 disjI1 [OF assms(14)]])
  finally show ?thesis using assms(9,11,13) by (simp add: ps)
qed

theorem iterate_four_pages_witness:
  "length [0..<100] = 100 \<and> length [100..<200] = 100 \<and> length [200..<237] = 37
   \<and> page_size (Index_init paged_backend [(''include_docs'', PBool True)]
        :: (nat, nat list list) index) = PInt 100
   \<and> consume 238 (Index_init paged_backend [(''include_docs'', PBool True)])
        (Index_iter (Index_init paged_backend [(''include_docs'', PBool True)]))
        \<lparr>world = [[0..<100], [100..<200], [200..<237], []], calls = []\<rparr> [] =
      (Some (Inr ([0..<100] @ [100..<200] @ [200..<237])),
       \<lparr>world = [],
        calls = [[(''limit'', PInt 100), (''skip'', PInt 0), (''include_docs'', PBool True)],
                 [(''limit'', PInt 100), (''skip'', PInt 100), (''include_docs'', PBool True)],
                 [(''limit'', PInt 100), (''skip'', PInt 200), (''include_docs'', PBool True)],
                 [(''limit'', PInt 100), (''skip'', PInt 300), (''include_docs'', PBool True)]]\<rparr>)"
proof -
  define self :: "(nat, nat list list) index"
    where "self = Index_init paged_backend [(''include_docs'', PBool True)]"
  have o: "options self = [(''include_docs'', PBool True)]"
    and r: "ref self = paged_backend"
    and p: "page_size self = PInt 100"
    by (simp_all add: self_def Index_init_def dict_pop_def)
  have s: "''skip'' \<notin> set (keys (options self))"
    and l: "''limit'' \<notin> set (keys (options self))"
    by (simp_all add: o keys_def)
  have l1: "length [0..<100] = 100" and l2: "length [100..<200] = 100"
    and l3: "length [200..<237] = 37" and f: "237 < (238::nat)"
    by simp_all
  have f1: "ref self ([(''limit'', PInt 100), (''skip'', PInt 0)] @ options self)
              [[0..<100], [100..<200], [200..<237], []] =
            (Inr \<lparr>rows = Some [0..<100], total_rows = None, offset = None\<rparr>,
             [[100..<200], [200..<237], []])"
    and f2: "ref self ([(''limit'', PInt 100), (''skip'', PInt 100)] @ options self)
              [[100..<200], [200..<237], []] =
            (Inr \<lparr>rows = Some [100..<200], total_rows = None, offset = None\<rparr>,
             [[200..<237], []])"
    and f3: "ref self ([(''limit'', PInt 100), (''skip'', PInt 200)] @ options self)
              [[200..<237], []] =
            (Inr \<lparr>rows = Some [200..<237], total_rows = None, offset = None\<rparr>, [[]])"
    and f4: "ref self ([(''limit'', PInt 100), (''skip'', PInt 300)] @ options self) [[]] =
            (Inr \<lparr>rows = Some [], total_rows = None, offset = None\<rparr>, [])"
    unfolding r paged_backend_def by (simp_all only: list.case)
  have x: "consume 238 self (Index_iter self)
        \<lparr>world = [[0..<100], [100..<200], [200..<237], []], calls = []\<rparr> [] =
      (Some (Inr ([0..<100] @ [100..<200] @ [200..<237])),
       \<lparr>world = [],
        calls = [] @ [[(''limit'', PInt 100), (''skip'', PInt 0)] @ options self,
                 [(''limit'', PInt 100), (''skip'', PInt 100)] @ options self,
                 [(''limit'', PInt 100), (''skip'', PInt 200)] @ options self,
                 [(''limit'', PInt 100), (''skip'', PInt 300)] @ options self]\<rparr>)"
    by (rule iterate_four_pages [OF s l p f1 f2 f3 f4 _ l1 _ l2 _ l3 _ f, THEN conjunct1])
       (simp_all only: response.simps)
  show ?thesis
    using x [unfolded o append.simps] p l1 l2 l3 unfolding self_def by blast
qed

subsection \<open>Independent iterations\<close>

lemma call_ref_answer:
  "fst (call_ref self ex s) =
     (case find (\<lambda>k. k \<in> set (keys (options self))) (keys ex) of
        Some k \<Rightarrow> Inl (TypeError k)
      | None \<Rightarrow> fst (ref self (ex @ options self) (world s)))"
  by (simp add: call_ref_def Let_def split: option.splits prod.splits)

lemma fetch_page_answer_only:
  "fst (fetch_page self sk s) =
     (case fst (call_ref self [(''limit'', page_size self), (''skip'', sk)] s) of
        Inl e \<Rightarrow> (Raise e, GFinished)
      | Inr response \<Rightarrow>
          (case py_add sk (page_size self) of
             Inl e \<Rightarrow> (Raise e, GFinished)
           | Inr sk' \<Rightarrow>
               (case (case rows response of None \<Rightarrow> [] | Some r \<Rightarrow> r) of
                  [] \<Rightarrow> (StopIteration, GFinished)
                | x # xs \<Rightarrow> (Yield x, GSuspended sk' xs))))"
  by (simp add: fetch_page_def Let_def split: prod.splits sum.splits list.splits)

lemma gen_next_indep:
  assumes "\<forall>kw w w'. fst (ref self kw w) = fst (ref self kw w')"
  shows "fst (gen_next self g s) = fst (gen_next self g s')"
proof -
  have c: "\<And>ex. fst (call_ref self ex s) = fst (call_ref self ex s')"
    using assms by (simp add: call_ref_answer split: option.splits)
  have f: "\<And>sk. fst (fetch_page self sk s) = fst (fetch_page self sk s')"
    by (simp only: fetch_page_answer_only c)
  show ?thesis
  proof (cases g)
    case GStart
    then show ?thesis by (simp add: f)
  next
    case (GSuspended sk xs)
    then show ?thesis by (cases xs) (simp_all add: f)
  next
    case GFinished
    then show ?thesis by simp
  qed
qed

lemma pull_indep:
  assumes "\<forall>kw w w'. fst (ref self kw w) = fst (ref self kw w')"
  shows "fst (pull n self g s) = fst (pull n self g s')"
proof (induction n arbitrary: g s s')
  case 0
  show ?case by simp
next
  case (Suc n)
  obtain out g1 s1 where a: "gen_next self g s = ((out, g1), s1)"
    by (metis surj_pair)
  obtain out' g1' s1' where b: "gen_next self g s' = ((out', g1'), s1')"
    by (metis surj_pair)
  from gen_next_indep [OF assms, of g s s'] a b have e: "out' = out" "g1' = g1" by simp_all
  from Suc.IH [of g1 s1 s1'] show ?case
    by (simp add: a b e case_prod_beta)
qed

text \<open>
  Claim C9. The operations take the Index as an argument they only read: none of
  them has an Index among its results, and the pagination counter \<open>skip\<close> lives in the
  state of each generator (\<open>GSuspended skip rows\<close>). So, when the answers of the data
  callable depend on the request alone, two generators over the same Index driven in
  any interleaving give, each of them, exactly what it would give if it ran alone for
  the same number of steps.
\<close>

theorem interleaved_iterations_independent:
  assumes "\<forall>kw w w'. fst (ref self kw w) = fst (ref self kw w')"
  shows "fst (fst (interleave sched self ga gb s)) = fst (pull (length (filter id sched)) self ga sa)
       \<and> snd (fst (interleave sched self ga gb s)) =
           fst (pull (length (filter Not sched)) self gb sb)"
proof (induction sched arbitrary: ga gb s sa sb)
  case Nil
  show ?case by simp
next
  case (Cons b sched)
  show ?case
  proof (cases b)
    case True
    obtain out g1 s1 where a: "gen_next self ga s = ((out, g1), s1)"
      by (metis surj_pair)
    obtain out' g1' s1' where a': "gen_next self ga sa = ((out', g1'), s1')"
      by (metis surj_pair)
    from gen_next_indep [OF assms, of ga s sa] a a' have e: "out' = out" "g1' = g1" by simp_all
    from Cons.IH [of g1 gb s1 s1' sb] show ?thesis
      by (simp add: True a a' e case_prod_beta)
  next
    case False
    obtain out g1 s1 where a: "gen_next self gb s = ((out, g1), s1)"
      by (metis surj_pair)
    obtain out' g1' s1' where a': "gen_next self gb sb = ((out', g1'), s1')"
      by (metis surj_pair)
    from gen_next_indep [OF assms, of gb s sb] a a' have e: "out' = out" "g1' = g1" by simp_all
    from Cons.IH [of ga g1 s1 sa s1'] show ?thesis
      by (simp add: False a a' e case_prod_beta)
  qed
qed

theorem interleaved_iterations_independent_witness:
  "(\<forall>kw w w'. fst (ref (Index_init (table_backend [1::nat, 2, 3]) [(''page_size'', PInt 2)]) kw w) =
                fst (ref (Index_init (table_backend [1::nat, 2, 3]) [(''page_size'', PInt 2)]) kw w'))
   \<and> fst (interleave [True, False, False, True, True, False, True, False]
            (Index_init (table_backend [1::nat, 2, 3]) [(''page_size'', PInt 2)])
            (Index_iter (Index_init (table_backend [1::nat, 2, 3]) [(''page_size'', PInt 2)]))
            (Index_iter (Index_init (table_backend [1::nat, 2, 3]) [(''page_size'', PInt 2)]))
            \<lparr>world = (), calls = []\<rparr>) =
       ([Yield 1, Yield 2, Yield 3, StopIteration], [Yield 1, Yield 2, Yield 3, StopIteration])"
proof -
  define self :: "(nat, unit) index"
    where "self = Index_init (table_backend [1::nat, 2, 3]) [(''page_size'', PInt 2)]"
  have h: "\<forall>kw w w'. fst (ref self kw w) = fst (ref self kw w')"
    by (simp add: self_def Index_init_def dict_pop_def)
  have solo: "fst (pull 4 self (Index_iter self) \<lparr>world = (), calls = []\<rparr>) =
                [Yield 1, Yield 2, Yield 3, StopIteration]"
    by (simp add: self_def Index_init_def dict_pop_def Index_iter_def keys_def fetch_page_def
          call_ref_def table_backend_def py_add_def number_def sys_maxint_def Let_def
          numeral_eq_Suc)
  have n: "length (filter id [True, False, False, True, True, False, True, False]) = 4"
    "length (filter Not [True, False, False, True, True, False, True, False]) = 4"
    by simp_all
  from interleaved_iterations_independent
         [OF h, of "[True, False, False, True, True, False, True, False]"
            "Index_iter self" "Index_iter self" "\<lparr>world = (), calls = []\<rparr>"
            "\<lparr>world = (), calls = []\<rparr>" "\<lparr>world = (), calls = []\<rparr>"]
  have "fst (interleave [True, False, False, True, True, False, True, False] self
            (Index_iter self) (Index_iter self) \<lparr>world = (), calls = []\<rparr>) =
       ([Yield 1, Yield 2, Yield 3, StopIteration], [Yield 1, Yield 2, Yield 3, StopIteration])"
    unfolding n solo by (simp add: prod_eq_iff)
  with h show ?thesis unfolding self_def by blast
qed

end
